theory Spec2Isabelle
  imports Main
begin

section \<open>Values, errors and the container library\<close>

text \<open>
  The dynamically typed values of the program (Go's \<open>any\<close> as far as the program
  handles it): primitives, lists and objects.  An object is an ordered mapping from field
  names to values, kept as an association list with at most one entry per key.
\<close>

datatype val =
    VNil
  | VBool bool
  | VInt int
  | VStr string
  | VList "val list"
  | VObj "(string \<times> val) list"

type_synonym object = "(string \<times> val) list"

text \<open>
  Every way a call can abort.  \<open>MisuseError\<close> is a panic raised on a wrong argument,
  \<open>StoreError\<close> is an error reported by the database (returned by \<open>Query\<close>, turned into
  a panic by the commits), \<open>RuntimeError\<close> is a panic of the Go runtime itself (a failed
  type assertion, a method call on a nil interface).
\<close>

datatype error =
    MisuseError string
  | StoreError string
  | RuntimeError string

subsection \<open>Lists of the container library\<close>

text \<open>
  Modelled from the spec: the container library (package \<open>anytype\<close>, the "external
  collaborator offering ordered mappings/sequences") is not part of the sources.  Its list
  is an index-addressable sequence: \<open>Add\<close> appends; \<open>Contains\<close> and \<open>IndexOf\<close>
  compare elements by equality (pointers by address), and \<open>IndexOf\<close> answers \<open>-1\<close> for
  an absent element; \<open>Get\<close>, \<open>Insert\<close> and \<open>Delete\<close> panic on a position outside
  the sequence; \<open>Delete\<close> with several positions resolves each one against the sequence
  as the earlier deletions left it ("sequential, not a stable batch").
\<close>

definition Contains :: "'a list \<Rightarrow> 'a \<Rightarrow> bool" where
  "Contains xs x = List.member xs x"

fun IndexOf :: "'a list \<Rightarrow> 'a \<Rightarrow> int" where
  "IndexOf [] x = - 1"
| "IndexOf (y # ys) x =
     (if y = x then 0
      else (let i = IndexOf ys x in if i < 0 then - 1 else i + 1))"

definition in_range :: "'a list \<Rightarrow> int \<Rightarrow> bool" where
  "in_range xs i = (0 \<le> i \<and> i < int (length xs))"

definition out_of_range :: "int \<Rightarrow> error" where
  "out_of_range i = MisuseError ''Index out of range.''"

definition Get :: "'a list \<Rightarrow> int \<Rightarrow> error + 'a" where
  "Get xs i = (if in_range xs i then Inr (xs ! nat i) else Inl (out_of_range i))"

definition delete_at :: "'a list \<Rightarrow> int \<Rightarrow> 'a list" where
  "delete_at xs i = take (nat i) xs @ drop (nat i + 1) xs"

text \<open>
  \<open>list_Delete\<close> answers the error (if any) together with the list as the call left it:
  the deletions made before a bad position stay.
\<close>

fun list_Delete :: "'a list \<Rightarrow> int list \<Rightarrow> error option \<times> 'a list" where
  "list_Delete xs [] = (None, xs)"
| "list_Delete xs (i # is) =
     (if in_range xs i then list_Delete (delete_at xs i) is
      else (Some (out_of_range i), xs))"

definition list_Insert :: "'a list \<Rightarrow> int \<Rightarrow> 'a \<Rightarrow> error + 'a list" where
  "list_Insert xs i x =
     (if 0 \<le> i \<and> i \<le> int (length xs) then Inr (take (nat i) xs @ x # drop (nat i) xs)
      else Inl (out_of_range i))"

subsection \<open>Objects of the container library\<close>

text \<open>
  Modelled from the spec: the field store (\<open>anytype.MapObject\<close>) is not part of the
  sources either.  It is the spec's "ordered mapping with set(k,v), unset(k), get(k),
  exists(k), keys(), count()"; its \<open>Set\<close> takes key/value pairs and rejects "an odd-length
  input as a misuse error" (and a key that is not a string) without writing anything.
  \<open>Pluck\<close> builds a new object from the named fields and panics on a field that does not
  exist.
\<close>

definition KeyExists :: "object \<Rightarrow> string \<Rightarrow> bool" where
  "KeyExists obj k = (map_of obj k \<noteq> None)"

fun set_field :: "object \<Rightarrow> string \<Rightarrow> val \<Rightarrow> object" where
  "set_field [] k v = [(k, v)]"
| "set_field ((k', v') # fs) k v =
     (if k' = k then (k, v) # fs else (k', v') # set_field fs k v)"

fun pairs_of :: "val list \<Rightarrow> (string \<times> val) list option" where
  "pairs_of [] = Some []"
| "pairs_of [k] = None"
| "pairs_of (VStr k # v # rest) =
     (case pairs_of rest of None \<Rightarrow> None | Some ps \<Rightarrow> Some ((k, v) # ps))"
| "pairs_of (k # v # rest) = None"

definition object_Set :: "object \<Rightarrow> val list \<Rightarrow> error + object" where
  "object_Set obj values =
     (if length values mod 2 \<noteq> 0
      then Inl (MisuseError ''Object fields have to be set as key-value pairs.'')
      else (case pairs_of values of
              None \<Rightarrow> Inl (MisuseError ''Keys have to be strings.'')
            | Some ps \<Rightarrow> Inr (foldl (\<lambda>ob (k, v). set_field ob k v) obj ps)))"

definition NewObject :: "val list \<Rightarrow> error + object" where
  "NewObject values = object_Set [] values"

definition object_Unset :: "object \<Rightarrow> string list \<Rightarrow> object" where
  "object_Unset obj keys = filter (\<lambda>(k, v). \<not> List.member keys k) obj"

fun Pluck :: "object \<Rightarrow> string list \<Rightarrow> error + object" where
  "Pluck obj [] = Inr []"
| "Pluck obj (k # ks) =
     (case map_of obj k of
        None \<Rightarrow> Inl (MisuseError ''Object does not have the field.'')
      | Some v \<Rightarrow>
          (case Pluck obj ks of
             Inl e \<Rightarrow> Inl e
           | Inr rest \<Rightarrow> Inr ((k, v) # filter (\<lambda>(k', v'). k' \<noteq> k) rest)))"

text \<open>The typed getters panic when the field is missing or holds another type.\<close>

definition GetString :: "object \<Rightarrow> string \<Rightarrow> error + string" where
  "GetString obj k =
     (case map_of obj k of
        Some (VStr s) \<Rightarrow> Inr s
      | _ \<Rightarrow> Inl (MisuseError ''Field is not a string.''))"

definition GetObject :: "object \<Rightarrow> string \<Rightarrow> error + object" where
  "GetObject obj k =
     (case map_of obj k of
        Some (VObj fs) \<Rightarrow> Inr fs
      | _ \<Rightarrow> Inl (MisuseError ''Field is not an object.''))"

text \<open>\<open>List.GetObject\<close>: the element at a position, which has to be an object.\<close>

definition list_GetObject :: "val list \<Rightarrow> int \<Rightarrow> error + object" where
  "list_GetObject xs i =
     (case Get xs i of
        Inl e \<Rightarrow> Inl e
      | Inr (VObj fs) \<Rightarrow> Inr fs
      | Inr _ \<Rightarrow> Inl (MisuseError ''Element is not an object.''))"

subsection \<open>\<open>strings.TrimSpace\<close>\<close>

text \<open>
  Strings are byte strings (UTF-8).  \<open>TrimSpace\<close> removes the leading and the trailing white
  space as Unicode defines it: the six ASCII characters and the code points U+0085, U+00A0,
  U+1680, U+2000 to U+200A, U+2028, U+2029, U+202F, U+205F and U+3000 in their encodings.
\<close>

definition asciiSpace :: "char \<Rightarrow> bool" where
  "asciiSpace c = List.member [CHR 0x09, CHR 0x0A, CHR 0x0B, CHR 0x0C, CHR 0x0D, CHR 0x20] c"

definition space2 :: "char \<Rightarrow> char \<Rightarrow> bool" where
  "space2 a b = (a = CHR 0xC2 \<and> (b = CHR 0x85 \<or> b = CHR 0xA0))"

definition space3 :: "char \<Rightarrow> char \<Rightarrow> char \<Rightarrow> bool" where
  "space3 a b c =
     ((a = CHR 0xE1 \<and> b = CHR 0x9A \<and> c = CHR 0x80) \<or>
      (a = CHR 0xE2 \<and> b = CHR 0x80 \<and>
         (List.member [CHR 0x80, CHR 0x81, CHR 0x82, CHR 0x83, CHR 0x84, CHR 0x85, CHR 0x86,
                       CHR 0x87, CHR 0x88, CHR 0x89, CHR 0x8A, CHR 0xA8, CHR 0xA9, CHR 0xAF] c)) \<or>
      (a = CHR 0xE2 \<and> b = CHR 0x81 \<and> c = CHR 0x9F) \<or>
      (a = CHR 0xE3 \<and> b = CHR 0x80 \<and> c = CHR 0x80))"

fun TrimLeft :: "string \<Rightarrow> string" where
  "TrimLeft (a # b # c # rest) =
     (if asciiSpace a then TrimLeft (b # c # rest)
      else if space2 a b then TrimLeft (c # rest)
      else if space3 a b c then TrimLeft rest
      else a # b # c # rest)"
| "TrimLeft [a, b] =
     (if asciiSpace a then TrimLeft [b]
      else if space2 a b then []
      else [a, b])"
| "TrimLeft [a] = (if asciiSpace a then [] else [a])"
| "TrimLeft [] = []"

text \<open>The same from the end, on the reversed string (so the bytes of a code point come
  in reverse order).\<close>

fun TrimRight_rev :: "string \<Rightarrow> string" where
  "TrimRight_rev (c # b # a # rest) =
     (if asciiSpace c then TrimRight_rev (b # a # rest)
      else if space2 b c then TrimRight_rev (a # rest)
      else if space3 a b c then TrimRight_rev rest
      else c # b # a # rest)"
| "TrimRight_rev [c, b] =
     (if asciiSpace c then TrimRight_rev [b]
      else if space2 b c then []
      else [c, b])"
| "TrimRight_rev [c] = (if asciiSpace c then [] else [c])"
| "TrimRight_rev [] = []"

definition TrimSpace :: "string \<Rightarrow> string" where
  "TrimSpace s = rev (TrimRight_rev (rev (TrimLeft s)))"

section \<open>The database driver and the connection\<close>

text \<open>
  Modelled from the spec: the driver (package \<open>neo4j\<close>), the spec's store gateway
  that "executes a query string with named parameters, returns an ordered sequence of
  result rows or an error", is not part of the sources.  A record of a result has keys
  and values; a value is a graph node (identity, element id, labels, properties) or
  anything else.  \<open>Run\<close> either fails, or gives a result that is iterated: the records
  that arrive, and the error (if any) that ended the iteration.  The session is a
  deterministic function of everything that was run before, of the query and of its
  parameters; the state keeps the history of the queries run.
\<close>

datatype db_value =
    DbNode int string "string list" object
  | DbOther val

type_synonym db_record = "(string \<times> db_value) list"

datatype run_result =
    RunError string
  | RunResult "db_record list" "string option"

type_synonym params = "object option"

type_synonym history = "(string \<times> params) list"

type_synonym session = "history \<Rightarrow> string \<Rightarrow> params \<Rightarrow> run_result"

subsection \<open>Nodes, the collection and the state\<close>

text \<open>
  A node holds a pointer to its field store and its three lists of keys; the collection
  \<open>col\<close> it points back to is the one collection of the state.  Nodes and field stores
  live in two heaps, addressed by numbers, since the lists of the collection and the
  caller share them.  An element of a list of the collection is a pointer to a node, a
  pointer to a bare object, or a value that is not an object.
\<close>

record node =
  MapObject :: nat
  node_id :: string
  node_added :: "string list"
  node_modified :: "string list"
  node_deleted :: "string list"

datatype elem =
    NodePtr nat
  | ObjPtr nat
  | Other val

record state =
  objects :: "nat \<Rightarrow> object"
  object_count :: nat
  nodes :: "nat \<Rightarrow> node"
  node_count :: nat
  SliceList :: "elem list"
  label :: string
  col_added :: "elem list"
  col_modified :: "elem list"
  col_deleted :: "string list"
  session :: session
  log :: history

definition empty_node :: node where
  "empty_node = \<lparr>MapObject = 0, node_id = [], node_added = [], node_modified = [],
     node_deleted = []\<rparr>"

definition NewConnection :: "session \<Rightarrow> state" where
  "NewConnection sess =
     \<lparr>objects = (\<lambda>a. []), object_count = 0, nodes = (\<lambda>p. empty_node), node_count = 0,
      SliceList = [], label = [], col_added = [], col_modified = [], col_deleted = [],
      session = sess, log = []\<rparr>"

text \<open>The caller's \<open>anytype.NewObject\<close>: a new field store in the heap.\<close>

definition alloc_object :: "object \<Rightarrow> state \<Rightarrow> nat \<times> state" where
  "alloc_object fs s =
     (object_count s,
      s\<lparr>objects := (objects s)(object_count s := fs), object_count := object_count s + 1\<rparr>)"

definition fields :: "state \<Rightarrow> nat \<Rightarrow> object" where
  "fields s p = objects s (MapObject (nodes s p))"

subsection \<open>\<open>connection.Query\<close>\<close>

definition convert_value :: "db_value \<Rightarrow> val" where
  "convert_value value =
     (case value of
        DbNode ident element_id labels properties \<Rightarrow>
          VObj [(''identity'', VInt ident), (''elementId'', VStr element_id),
                (''labels'', VList (map VStr labels)), (''properties'', VObj properties)]
      | DbOther v \<Rightarrow> v)"

definition convert_record :: "db_record \<Rightarrow> val" where
  "convert_record record =
     VObj (foldl (\<lambda>item key.
              (case map_of record key of
                 Some value \<Rightarrow> set_field item key (convert_value value)
               | None \<Rightarrow> item))
            [] (map fst record))"

text \<open>
  The result list is \<open>Some\<close> list when it is not nil.  \<open>output\<close> is created before the
  error of \<open>Run\<close> is looked at, and returned on every path.
\<close>

definition Query :: "string \<Rightarrow> params \<Rightarrow> state \<Rightarrow> (val list option \<times> string option) \<times> state" where
  "Query query params s =
     (let paramDict = params;
          query' = TrimSpace query;
          s' = s\<lparr>log := log s @ [(query', paramDict)]\<rparr>;
          output = []
      in (case session s (log s) query' paramDict of
            RunError err \<Rightarrow> ((Some output, Some err), s')
          | RunResult records err \<Rightarrow>
              ((Some (output @ map convert_record records), err), s')))"

section \<open>Nodes\<close>

definition newNode :: "string \<Rightarrow> nat \<Rightarrow> state \<Rightarrow> nat \<times> state" where
  "newNode ident obj s =
     (node_count s,
      s\<lparr>nodes := (nodes s)(node_count s :=
            \<lparr>MapObject = obj, node_id = ident, node_added = [], node_modified = [],
             node_deleted = []\<rparr>),
        node_count := node_count s + 1\<rparr>)"

text \<open>\<open>template\<close>: the loop over the fields, with its counter \<open>i\<close>.\<close>

fun template_loop :: "nat \<Rightarrow> nat \<Rightarrow> string list \<Rightarrow> string" where
  "template_loop i n [] = []"
| "template_loop i n (key # keys) =
     key @ '':$'' @ key @ (if i + 1 < n then '','' else []) @ template_loop (i + 1) n keys"

definition template :: "nat \<Rightarrow> state \<Rightarrow> string" where
  "template p s =
     ''{'' @ template_loop 0 (length (fields s p)) (map fst (fields s p)) @ ''}''"

definition register_modified :: "nat \<Rightarrow> state \<Rightarrow> state" where
  "register_modified p s =
     (if \<not> Contains (col_modified s) (NodePtr p)
      then s\<lparr>col_modified := col_modified s @ [NodePtr p]\<rparr>
      else s)"

definition track_key :: "nat \<Rightarrow> string \<Rightarrow> state \<Rightarrow> state" where
  "track_key p key s =
     (let n = nodes s p in
      if \<not> Contains (node_added n) key then
        (if KeyExists (fields s p) key
         then s\<lparr>nodes := (nodes s)(p := n\<lparr>node_modified := node_modified n @ [key]\<rparr>)\<rparr>
         else s\<lparr>nodes := (nodes s)(p := n\<lparr>node_added := node_added n @ [key]\<rparr>)\<rparr>)
      else s)"

text \<open>The loop of \<open>Set\<close> looks at every second argument, from the first one.\<close>

fun track_keys :: "nat \<Rightarrow> val list \<Rightarrow> state \<Rightarrow> error option \<times> state" where
  "track_keys p [] s = (None, s)"
| "track_keys p [VStr key] s = (None, track_key p key s)"
| "track_keys p (VStr key # v # rest) s = track_keys p rest (track_key p key s)"
| "track_keys p (k # rest) s = (Some (MisuseError ''Keys have to be strings.''), s)"

definition node_Set :: "nat \<Rightarrow> val list \<Rightarrow> state \<Rightarrow> (error + nat) \<times> state" where
  "node_Set p values s =
     (case (if length values mod 2 = 0 then track_keys p values s else (None, s)) of
        (Some e, s1) \<Rightarrow> (Inl e, s1)
      | (None, s1) \<Rightarrow>
          (let s2 = register_modified p s1; a = MapObject (nodes s2 p) in
           case object_Set (objects s2 a) values of
             Inl e \<Rightarrow> (Inl e, s2)
           | Inr obj \<Rightarrow> (Inr a, s2\<lparr>objects := (objects s2)(a := obj)\<rparr>)))"

text \<open>
  One key of \<open>Unset\<close>.  In the second branch the position is looked up in \<open>added\<close>, as
  the source does.
\<close>

definition untrack_key :: "nat \<Rightarrow> string \<Rightarrow> state \<Rightarrow> error option \<times> state" where
  "untrack_key p key s =
     (let n = nodes s p in
      if Contains (node_added n) key then
        (case list_Delete (node_added n) [IndexOf (node_added n) key] of
           (e, xs) \<Rightarrow> (e, s\<lparr>nodes := (nodes s)(p := n\<lparr>node_added := xs\<rparr>)\<rparr>))
      else if Contains (node_modified n) key then
        (case list_Delete (node_modified n) [IndexOf (node_added n) key] of
           (e, xs) \<Rightarrow> (e, s\<lparr>nodes := (nodes s)(p := n\<lparr>node_modified := xs\<rparr>)\<rparr>))
      else (None, s\<lparr>nodes := (nodes s)(p := n\<lparr>node_deleted := node_deleted n @ [key]\<rparr>)\<rparr>))"

fun untrack_keys :: "nat \<Rightarrow> string list \<Rightarrow> state \<Rightarrow> error option \<times> state" where
  "untrack_keys p [] s = (None, s)"
| "untrack_keys p (key # keys) s =
     (case untrack_key p key s of
        (Some e, s1) \<Rightarrow> (Some e, s1)
      | (None, s1) \<Rightarrow> untrack_keys p keys s1)"

definition node_Unset :: "nat \<Rightarrow> string list \<Rightarrow> state \<Rightarrow> (error + nat) \<times> state" where
  "node_Unset p keys s =
     (case untrack_keys p keys s of
        (Some e, s1) \<Rightarrow> (Inl e, s1)
      | (None, s1) \<Rightarrow>
          (let s2 = register_modified p s1; a = MapObject (nodes s2 p) in
           (Inr a, s2\<lparr>objects := (objects s2)(a := object_Unset (objects s2 a) keys)\<rparr>)))"

definition node_Clear :: "nat \<Rightarrow> state \<Rightarrow> (error + nat) \<times> state" where
  "node_Clear p s = (Inl (MisuseError ''Cannot clear a Neo4j node.''), s)"

subsection \<open>Loops that a panic leaves\<close>

text \<open>
  \<open>ForEach\<close> and \<open>range\<close> loops whose body may panic: the first panic ends the loop,
  with the state as the body left it.
\<close>

fun forEach :: "('a \<Rightarrow> state \<Rightarrow> error option \<times> state) \<Rightarrow> 'a list \<Rightarrow> state \<Rightarrow> error option \<times> state" where
  "forEach f [] s = (None, s)"
| "forEach f (x # xs) s =
     (case f x s of
        (Some e, s1) \<Rightarrow> (Some e, s1)
      | (None, s1) \<Rightarrow> forEach f xs s1)"

definition Empty :: "'a list \<Rightarrow> bool" where
  "Empty xs = (xs = [])"

subsection \<open>\<open>node.Commit\<close>\<close>

definition dquote :: string where
  "dquote = [CHR 0x22]"

definition newline :: string where
  "newline = [CHR 0x0A]"

definition tabs :: "nat \<Rightarrow> string" where
  "tabs n = replicate n (CHR 0x09)"

text \<open>The function given to \<open>ReduceStrings\<close>, and the reduction from the empty string.\<close>

definition set_clause :: "string list \<Rightarrow> string" where
  "set_clause todo =
     foldl (\<lambda>res key. res @ (if res \<noteq> [] then '','' else []) @ '' n.'' @ key @ '' = $'' @ key)
       [] todo"

definition update_query :: "string \<Rightarrow> string \<Rightarrow> string list \<Rightarrow> string" where
  "update_query lbl ident todo =
     ''MATCH (n:'' @ lbl @ '') WHERE elementId(n) = '' @ dquote @ ident @ dquote @ '' SET'' @
     set_clause todo"

definition null_query :: "string \<Rightarrow> string \<Rightarrow> string \<Rightarrow> string" where
  "null_query lbl ident key =
     newline @ tabs 5 @ ''MATCH (n:'' @ lbl @ '')'' @
     newline @ tabs 5 @ ''WHERE elementId(n) = '' @ dquote @ ident @ dquote @
     newline @ tabs 5 @ ''SET n.'' @ key @ '' = null'' @
     newline @ tabs 4"

definition commit_set_keys :: "nat \<Rightarrow> state \<Rightarrow> error option \<times> state" where
  "commit_set_keys p s =
     (let n = nodes s p in
      if \<not> (Empty (node_added n) \<and> Empty (node_modified n)) then
        (let todo = node_added n @ node_modified n;
             cypher = update_query (label s) (node_id n) todo
         in case Pluck (fields s p) todo of
              Inl e \<Rightarrow> (Some e, s)
            | Inr plucked \<Rightarrow>
                (case Query cypher (Some plucked) s of
                   ((result, Some err), s1) \<Rightarrow> (Some (StoreError err), s1)
                 | ((result, None), s1) \<Rightarrow>
                     (None, s1\<lparr>nodes := (nodes s1)(p := (nodes s1 p)\<lparr>node_added := []\<rparr>)\<rparr>)))
      else (None, s))"

definition null_key :: "nat \<Rightarrow> string \<Rightarrow> state \<Rightarrow> error option \<times> state" where
  "null_key p key s =
     (case Query (null_query (label s) (node_id (nodes s p)) key) None s of
        ((result, Some err), s1) \<Rightarrow> (Some (StoreError err), s1)
      | ((result, None), s1) \<Rightarrow> (None, s1))"

definition commit_unset_keys :: "nat \<Rightarrow> state \<Rightarrow> error option \<times> state" where
  "commit_unset_keys p s =
     (if \<not> Empty (node_deleted (nodes s p)) then
        (case forEach (null_key p) (node_deleted (nodes s p)) s of
           (Some e, s1) \<Rightarrow> (Some e, s1)
         | (None, s1) \<Rightarrow>
             (None, s1\<lparr>nodes := (nodes s1)(p := (nodes s1 p)\<lparr>node_deleted := []\<rparr>)\<rparr>))
      else (None, s))"

definition node_Commit :: "nat \<Rightarrow> state \<Rightarrow> (error + nat) \<times> state" where
  "node_Commit p s =
     (case commit_set_keys p s of
        (Some e, s1) \<Rightarrow> (Inl e, s1)
      | (None, s1) \<Rightarrow>
          (case commit_unset_keys p s1 of
             (Some e, s2) \<Rightarrow> (Inl e, s2)
           | (None, s2) \<Rightarrow> (Inr p, s2)))"

section \<open>The collection\<close>

text \<open>
  \<open>NewCollection\<close>: the rows of the label, each wrapped as a node with the element id of
  the row and a field store of its own holding the properties.
\<close>

definition load_row :: "val \<Rightarrow> state \<Rightarrow> error option \<times> state" where
  "load_row x s =
     (case x of
        VObj row \<Rightarrow>
          (case GetObject row ''n'' of
             Inl e \<Rightarrow> (Some e, s)
           | Inr n \<Rightarrow>
               (case GetString n ''elementId'' of
                  Inl e \<Rightarrow> (Some e, s)
                | Inr ident \<Rightarrow>
                    (case GetObject n ''properties'' of
                       Inl e \<Rightarrow> (Some e, s)
                     | Inr properties \<Rightarrow>
                         (case alloc_object properties s of
                            (a, s1) \<Rightarrow>
                              (case newNode ident a s1 of
                                 (p, s2) \<Rightarrow>
                                   (None, s2\<lparr>SliceList := SliceList s2 @ [NodePtr p]\<rparr>))))))
      | _ \<Rightarrow> (None, s))"

definition NewCollection :: "string \<Rightarrow> state \<Rightarrow> (error + unit) \<times> state" where
  "NewCollection entity s =
     (case Query (''MATCH (n:'' @ entity @ '') RETURN n'') None s of
        ((result, Some err), s1) \<Rightarrow> (Inl (StoreError err), s1)
      | ((None, None), s1) \<Rightarrow> (Inl (RuntimeError ''nil pointer dereference''), s1)
      | ((Some rows, None), s1) \<Rightarrow>
          (case forEach load_row rows
                  (s1\<lparr>SliceList := [], label := entity, col_added := [], col_modified := [],
                      col_deleted := []\<rparr>) of
             (Some e, s2) \<Rightarrow> (Inl e, s2)
           | (None, s2) \<Rightarrow> (Inr (), s2)))"

subsection \<open>\<open>Add\<close>, \<open>Insert\<close>, \<open>Replace\<close>, \<open>Delete\<close>, \<open>Pop\<close>, \<open>Clear\<close>\<close>

definition add_value :: "elem \<Rightarrow> state \<Rightarrow> error option \<times> state" where
  "add_value value s =
     (case value of
        Other v \<Rightarrow> (Some (MisuseError ''Only object can be added to the collection.''), s)
      | NodePtr q \<Rightarrow> (Some (RuntimeError ''interface conversion: not *anytype.MapObject''), s)
      | ObjPtr a \<Rightarrow>
          (case newNode [] a s of
             (p, s1) \<Rightarrow>
               (let s2 = s1\<lparr>col_added := col_added s1 @ [NodePtr p]\<rparr>
                in (None, s2\<lparr>SliceList := SliceList s2 @ [NodePtr p]\<rparr>))))"

definition Add :: "elem list \<Rightarrow> state \<Rightarrow> (error + unit) \<times> state" where
  "Add values s =
     (case forEach add_value values s of
        (Some e, s1) \<Rightarrow> (Inl e, s1)
      | (None, s1) \<Rightarrow> (Inr (), s1))"

definition Insert :: "int \<Rightarrow> elem \<Rightarrow> state \<Rightarrow> (error + unit) \<times> state" where
  "Insert index value s =
     (case value of
        Other v \<Rightarrow> (Inl (MisuseError ''Only object can be inserted to the collection.''), s)
      | _ \<Rightarrow>
          (let s1 = s\<lparr>col_added := col_added s @ [value]\<rparr> in
           case list_Insert (SliceList s1) index value of
             Inl e \<Rightarrow> (Inl e, s1)
           | Inr xs \<Rightarrow> (Inr (), s1\<lparr>SliceList := xs\<rparr>)))"

text \<open>
  The body of the loop of \<open>Delete\<close>, for the loop variable \<open>index\<close>.
\<close>

definition untrack_row :: "int \<Rightarrow> state \<Rightarrow> error option \<times> state" where
  "untrack_row index s =
     (case Get (SliceList s) index of
        Inl e \<Rightarrow> (Some e, s)
      | Inr elem \<Rightarrow>
          if Contains (col_added s) elem then
            (case list_Delete (col_added s) [IndexOf (col_added s) elem] of
               (e, xs) \<Rightarrow> (e, s\<lparr>col_added := xs\<rparr>))
          else
            (case (if Contains (col_modified s) elem
                   then list_Delete (col_modified s) [IndexOf (col_modified s) elem]
                   else (None, col_modified s)) of
               (Some e, xs) \<Rightarrow> (Some e, s\<lparr>col_modified := xs\<rparr>)
             | (None, xs) \<Rightarrow>
                 (let s1 = s\<lparr>col_modified := xs\<rparr> in
                  case elem of
                    NodePtr q \<Rightarrow> (None, s1\<lparr>col_deleted := col_deleted s1 @ [node_id (nodes s1 q)]\<rparr>)
                  | _ \<Rightarrow> (None, s1))))"

text \<open>
  The loop is \<open>for index := range indexes\<close>: with one variable, \<open>range\<close> gives the
  positions \<open>0, 1, ...\<close> of the slice \<open>indexes\<close>, not its elements.
\<close>

fun untrack_rows :: "int \<Rightarrow> int list \<Rightarrow> state \<Rightarrow> error option \<times> state" where
  "untrack_rows index [] s = (None, s)"
| "untrack_rows index (i # rest) s =
     (case untrack_row index s of
        (Some e, s1) \<Rightarrow> (Some e, s1)
      | (None, s1) \<Rightarrow> untrack_rows (index + 1) rest s1)"

definition Delete :: "int list \<Rightarrow> state \<Rightarrow> (error + unit) \<times> state" where
  "Delete indexes s =
     (case untrack_rows 0 indexes s of
        (Some e, s1) \<Rightarrow> (Inl e, s1)
      | (None, s1) \<Rightarrow>
          (case list_Delete (SliceList s1) indexes of
             (Some e, xs) \<Rightarrow> (Inl e, s1\<lparr>SliceList := xs\<rparr>)
           | (None, xs) \<Rightarrow> (Inr (), s1\<lparr>SliceList := xs\<rparr>)))"

definition Replace :: "int \<Rightarrow> elem \<Rightarrow> state \<Rightarrow> (error + unit) \<times> state" where
  "Replace index value s =
     (case Delete [index] s of
        (Inl e, s1) \<Rightarrow> (Inl e, s1)
      | (Inr u, s1) \<Rightarrow> Insert index value s1)"

definition Count :: "state \<Rightarrow> int" where
  "Count s = int (length (SliceList s))"

definition Pop :: "state \<Rightarrow> (error + unit) \<times> state" where
  "Pop s = Delete [Count s - 1] s"

text \<open>The loop of \<open>Clear\<close>, from \<open>i = Count() - 1\<close> down to \<open>0\<close>; the argument is \<open>i + 1\<close>.\<close>

fun clear_rows :: "nat \<Rightarrow> state \<Rightarrow> error option \<times> state" where
  "clear_rows 0 s = (None, s)"
| "clear_rows (Suc i) s =
     (case Delete [int i] s of
        (Inl e, s1) \<Rightarrow> (Some e, s1)
      | (Inr u, s1) \<Rightarrow> clear_rows i s1)"

definition Clear :: "state \<Rightarrow> (error + unit) \<times> state" where
  "Clear s =
     (case clear_rows (length (SliceList s)) s of
        (Some e, s1) \<Rightarrow> (Inl e, s1)
      | (None, s1) \<Rightarrow> (Inr (), s1\<lparr>SliceList := []\<rparr>))"

subsection \<open>\<open>collection.Commit\<close>\<close>

definition create_query :: "string \<Rightarrow> string \<Rightarrow> string" where
  "create_query lbl tmpl = ''CREATE (n:'' @ lbl @ tmpl @ '') RETURN elementId(n)''"

definition delete_query :: "string \<Rightarrow> string" where
  "delete_query lbl =
     newline @ tabs 5 @ ''MATCH (n:'' @ lbl @ '')'' @
     newline @ tabs 5 @ ''WHERE elementId(n) = $id'' @
     newline @ tabs 5 @ ''DELETE n'' @
     newline @ tabs 4"

text \<open>
  The body of the first loop.  \<open>ForEachObject\<close> passes over the elements that are not
  objects; the assertion \<open>x.(*node)\<close> panics on a bare object.
\<close>

definition create_node :: "elem \<Rightarrow> state \<Rightarrow> error option \<times> state" where
  "create_node x s =
     (case x of
        Other v \<Rightarrow> (None, s)
      | ObjPtr a \<Rightarrow> (Some (RuntimeError ''interface conversion: not *neo4go.node''), s)
      | NodePtr p \<Rightarrow>
          (case Query (create_query (label s) (template p s)) (Some (fields s p)) s of
             ((result, Some err), s1) \<Rightarrow> (Some (StoreError err), s1)
           | ((None, None), s1) \<Rightarrow> (Some (RuntimeError ''nil pointer dereference''), s1)
           | ((Some rows, None), s1) \<Rightarrow>
               (case list_GetObject rows 0 of
                  Inl e \<Rightarrow> (Some e, s1)
                | Inr row \<Rightarrow>
                    (case GetString row ''elementId(n)'' of
                       Inl e \<Rightarrow> (Some e, s1)
                     | Inr ident \<Rightarrow>
                         (None, s1\<lparr>nodes := (nodes s1)(p := (nodes s1 p)\<lparr>node_id := ident\<rparr>)\<rparr>)))))"

definition delete_node :: "string \<Rightarrow> state \<Rightarrow> error option \<times> state" where
  "delete_node ident s =
     (case Query (delete_query (label s)) (Some [(''id'', VStr ident)]) s of
        ((result, Some err), s1) \<Rightarrow> (Some (StoreError err), s1)
      | ((result, None), s1) \<Rightarrow> (None, s1))"

definition commit_node :: "elem \<Rightarrow> state \<Rightarrow> error option \<times> state" where
  "commit_node x s =
     (case x of
        Other v \<Rightarrow> (None, s)
      | ObjPtr a \<Rightarrow> (Some (RuntimeError ''interface conversion: not *neo4go.node''), s)
      | NodePtr p \<Rightarrow>
          (case node_Commit p s of
             (Inl e, s1) \<Rightarrow> (Some e, s1)
           | (Inr r, s1) \<Rightarrow> (None, s1)))"

text \<open>The three blocks of \<open>Commit\<close>, each a loop followed by \<open>Clear\<close> of its list.\<close>

definition commit_added :: "state \<Rightarrow> error option \<times> state" where
  "commit_added s =
     (if \<not> Empty (col_added s) then
        (case forEach create_node (col_added s) s of
           (Some e, s1) \<Rightarrow> (Some e, s1)
         | (None, s1) \<Rightarrow> (None, s1\<lparr>col_added := []\<rparr>))
      else (None, s))"

definition commit_deleted :: "state \<Rightarrow> error option \<times> state" where
  "commit_deleted s =
     (if \<not> Empty (col_deleted s) then
        (case forEach delete_node (col_deleted s) s of
           (Some e, s1) \<Rightarrow> (Some e, s1)
         | (None, s1) \<Rightarrow> (None, s1\<lparr>col_deleted := []\<rparr>))
      else (None, s))"

definition commit_modified :: "state \<Rightarrow> error option \<times> state" where
  "commit_modified s =
     (if \<not> Empty (col_modified s) then
        (case forEach commit_node (col_modified s) s of
           (Some e, s1) \<Rightarrow> (Some e, s1)
         | (None, s1) \<Rightarrow> (None, s1\<lparr>col_modified := []\<rparr>))
      else (None, s))"

definition Commit :: "state \<Rightarrow> (error + unit) \<times> state" where
  "Commit s =
     (case commit_added s of
        (Some e, s1) \<Rightarrow> (Inl e, s1)
      | (None, s1) \<Rightarrow>
          (case commit_deleted s1 of
             (Some e, s2) \<Rightarrow> (Inl e, s2)
           | (None, s2) \<Rightarrow>
               (case commit_modified s2 of
                  (Some e, s3) \<Rightarrow> (Inl e, s3)
                | (None, s3) \<Rightarrow> (Inr (), s3))))"

section \<open>What a run shows\<close>












section \<open>The commit of the collection, as the spec words it\<close>





text \<open>
  The nodes with new identities; a node after its commit (the keys of \<open>added\<close> and of
  \<open>deleted\<close> are done, those of \<open>modified\<close> stay, as \<open>node.Commit\<close> leaves them); the
  nodes after the commits of a list of nodes.
\<close>

definition with_ids :: "(nat \<Rightarrow> string) \<Rightarrow> (nat \<Rightarrow> node) \<Rightarrow> nat \<Rightarrow> node" where
  "with_ids ids N p = (N p)\<lparr>node_id := ids p\<rparr>"






section \<open>Relations between the states of a run\<close>


text \<open>What a commit leaves as it is: the data of the nodes, the collection, the keys, the
  identities.\<close>

definition same_data :: "state \<Rightarrow> state \<Rightarrow> bool" where
  "same_data s t =
     (label t = label s \<and> objects t = objects s \<and>
      (\<lambda>p. MapObject (nodes t p)) = (\<lambda>p. MapObject (nodes s p)))"







section \<open>A loaded collection to run the operations on\<close>

text \<open>
  A database that holds two rows of the label \<open>Person\<close> and answers every later query
  with one row carrying the element id \<open>4:abc:3\<close>; \<open>loaded\<close> is the collection that
  \<open>NewCollection\<close> makes of it.
\<close>

definition example_session :: session where
  "example_session h q prm =
     (if h = []
      then RunResult [[(''n'', DbNode 1 ''4:abc:1'' [''Person''] [(''name'', VStr ''A'')])],
                      [(''n'', DbNode 2 ''4:abc:2'' [''Person''] [(''name'', VStr ''B'')])]] None
      else RunResult [[(''elementId(n)'', DbOther (VStr ''4:abc:3''))]] None)"

definition loaded :: state where
  "loaded = snd (NewCollection ''Person'' (NewConnection example_session))"

text \<open>
  \<open>with_object\<close>: the caller has made the field mapping \<open>name = C\<close> (object \<open>2\<close>).
  \<open>pending\<close>: the first row is deleted, the mapping is added, and \<open>name\<close> of the second
  row is set, so that a commit has work in each of its three blocks.
\<close>

definition with_object :: state where
  "with_object = snd (alloc_object [(''name'', VStr ''C'')] loaded)"





section \<open>Evaluation\<close>

lemmas model_defs =
  Contains_def in_range_def out_of_range_def Get_def delete_at_def list_Insert_def
  KeyExists_def object_Set_def NewObject_def object_Unset_def GetString_def GetObject_def
  list_GetObject_def asciiSpace_def space2_def space3_def TrimSpace_def empty_node_def
  NewConnection_def alloc_object_def fields_def convert_value_def convert_record_def
  Query_def newNode_def template_def register_modified_def track_key_def node_Set_def
  untrack_key_def node_Unset_def node_Clear_def Empty_def dquote_def newline_def tabs_def
  set_clause_def update_query_def null_query_def commit_set_keys_def null_key_def
  commit_unset_keys_def node_Commit_def load_row_def NewCollection_def add_value_def
  Add_def Insert_def untrack_row_def Delete_def Replace_def Count_def Pop_def Clear_def
  create_query_def delete_query_def create_node_def delete_node_def commit_node_def
  commit_added_def commit_deleted_def commit_modified_def Commit_def


lemma loaded_eq:
  "loaded =
     \<lparr>objects = (\<lambda>a. [])(0 := [(''name'', VStr ''A'')], 1 := [(''name'', VStr ''B'')]),
      object_count = 2,
      nodes = (\<lambda>p. empty_node)
        (0 := \<lparr>MapObject = 0, node_id = ''4:abc:1'', node_added = [], node_modified = [],
               node_deleted = []\<rparr>,
         1 := \<lparr>MapObject = 1, node_id = ''4:abc:2'', node_added = [], node_modified = [],
               node_deleted = []\<rparr>),
      node_count = 2,
      SliceList = [NodePtr 0, NodePtr 1], label = ''Person'',
      col_added = [], col_modified = [], col_deleted = [],
      session = example_session, log = [(''MATCH (n:Person) RETURN n'', None)]\<rparr>"
  by (simp add: loaded_def model_defs example_session_def)


section \<open>Runs and their histories\<close>


















lemma same_data_refl: "same_data s s"
  by (simp add: same_data_def)

lemma same_data_trans: "same_data s t \<Longrightarrow> same_data t u \<Longrightarrow> same_data s u"
  by (simp add: same_data_def)







subsection \<open>The creates\<close>







subsection \<open>The row deletes\<close>




subsection \<open>The field commits\<close>
























subsection \<open>The code and the phases of the spec\<close>





lemma with_ids_fun_upd:
  "with_ids (ids(p := ident)) (N(p := (N p)\<lparr>node_id := ident\<rparr>)) = with_ids (ids(p := ident)) N"
  by (simp add: with_ids_def fun_eq_iff)

lemma with_ids_twice: "with_ids ids (with_ids ids' N) = with_ids ids N"
  by (simp add: with_ids_def fun_eq_iff)






















section \<open>The claims\<close>

text \<open>
  C1.  A commit of a node with pending keys issues one \<open>SET\<close> query for the keys of
  \<open>added\<close> and \<open>modified\<close> together and then clears both lists, so that a second commit
  issues nothing.  The code clears \<open>added\<close> only.  On the first node of \<open>loaded\<close>
  (fields \<open>name = A\<close>), \<open>Set("name", "B", "age", 5)\<close> gives \<open>added = [age]\<close> and
  \<open>modified = [name]\<close>; the commit issues the one query for both keys and leaves
  \<open>modified = [name]\<close>; the second commit issues the query for \<open>name\<close> again.
\<close>

theorem node_Commit_keeps_modified:
  "(case node_Set 0 [VStr ''name'', VStr ''B'', VStr ''age'', VInt 5] loaded of
      (r1, s1) \<Rightarrow>
        (case node_Commit 0 s1 of
           (r2, s2) \<Rightarrow>
             (case node_Commit 0 s2 of
                (r3, s3) \<Rightarrow>
                  r1 = Inr 0 \<and> r2 = Inr 0 \<and> r3 = Inr 0 \<and>
                  node_added (nodes s1 0) = [''age''] \<and>
                  node_modified (nodes s1 0) = [''name''] \<and>
                  log s2 = log s1 @
                    [(update_query ''Person'' ''4:abc:1'' [''age'', ''name''],
                      Some [(''age'', VInt 5), (''name'', VStr ''B'')])] \<and>
                  node_added (nodes s2 0) = [] \<and>
                  node_modified (nodes s2 0) = [''name''] \<and>
                  log s3 = log s2 @
                    [(update_query ''Person'' ''4:abc:1'' [''name''],
                      Some [(''name'', VStr ''B'')])])))"
  by (simp add: loaded_eq model_defs example_session_def)

text \<open>
  C2.  \<open>Delete(indexes...)\<close> takes out of the tracking lists the rows at the given
  indexes, and moves their identities to \<open>deleted\<close>.  The loop of the code runs over the
  positions of the argument slice instead of its elements.  \<open>Delete(1)\<close> on the two rows
  of \<open>loaded\<close> removes the second row from the rows and puts the identity of the first
  one into \<open>deleted\<close>; the commit then deletes the first row in the database.
\<close>

theorem Delete_tracks_position_not_index:
  "(case Delete [1] loaded of
      (r1, s1) \<Rightarrow>
        (case Commit s1 of
           (r2, s2) \<Rightarrow>
             r1 = Inr () \<and> r2 = Inr () \<and>
             SliceList loaded = [NodePtr 0, NodePtr 1] \<and>
             node_id (nodes loaded 0) = ''4:abc:1'' \<and>
             node_id (nodes loaded 1) = ''4:abc:2'' \<and>
             SliceList s1 = [NodePtr 0] \<and>
             col_deleted s1 = [''4:abc:1''] \<and>
             log s2 = log s1 @
               [(TrimSpace (delete_query ''Person''), Some [(''id'', VStr ''4:abc:1'')])]))"
  by (simp add: loaded_eq model_defs example_session_def)

text \<open>
  C3.  \<open>Insert(index, value)\<close> wraps the value as a new node, as \<open>Add\<close> does, and
  registers the node in \<open>added\<close>.  The code registers the bare value: no node is made,
  and the commit panics on the type assertion before it runs any query.
\<close>

theorem Insert_registers_bare_object:
  "(case alloc_object [(''name'', VStr ''C'')] loaded of
      (a, s0) \<Rightarrow>
        (case Insert 0 (ObjPtr a) s0 of
           (r1, s1) \<Rightarrow>
             (case Commit s1 of
                (r2, s2) \<Rightarrow>
                  r1 = Inr () \<and>
                  col_added s1 = [ObjPtr a] \<and>
                  SliceList s1 = [ObjPtr a, NodePtr 0, NodePtr 1] \<and>
                  node_count s1 = node_count s0 \<and>
                  r2 = Inl (RuntimeError ''interface conversion: not *neo4go.node'') \<and>
                  col_added s2 = [ObjPtr a] \<and>
                  log s2 = log s0)))"
  by (simp add: loaded_eq model_defs example_session_def)

text \<open>
  C4.  The lists \<open>added\<close>, \<open>modified\<close> and \<open>deleted\<close> of a node stay pairwise disjoint,
  and \<open>Set\<close> on a key that waits in \<open>deleted\<close> takes it out of there.  \<open>Set\<close> never
  touches \<open>deleted\<close>: after \<open>Unset("name")\<close> and \<open>Set("name", "B")\<close> on the first node
  of \<open>loaded\<close> the key is in \<open>added\<close> and in \<open>deleted\<close>, and the commit writes the
  value and then nulls it.
\<close>

theorem Set_keeps_pending_delete:
  "(case node_Unset 0 [''name''] loaded of
      (r1, s1) \<Rightarrow>
        (case node_Set 0 [VStr ''name'', VStr ''B''] s1 of
           (r2, s2) \<Rightarrow>
             (case node_Commit 0 s2 of
                (r3, s3) \<Rightarrow>
                  r1 = Inr 0 \<and> r2 = Inr 0 \<and> r3 = Inr 0 \<and>
                  node_deleted (nodes s1 0) = [''name''] \<and>
                  node_added (nodes s2 0) = [''name''] \<and>
                  node_modified (nodes s2 0) = [] \<and>
                  node_deleted (nodes s2 0) = [''name''] \<and>
                  fields s2 0 = [(''name'', VStr ''B'')] \<and>
                  log s3 = log s2 @
                    [(update_query ''Person'' ''4:abc:1'' [''name''],
                      Some [(''name'', VStr ''B'')]),
                     (TrimSpace (null_query ''Person'' ''4:abc:1'' ''name''), None)])))"
  by (simp add: loaded_eq model_defs example_session_def)

text \<open>
  C5.  \<open>Unset\<close> of a key that is in \<open>added\<close> or in \<open>modified\<close> takes the key out of
  that list.  For a key of \<open>modified\<close> the code looks the position up in \<open>added\<close>,
  where the key is not: the deletion at position \<open>-1\<close> panics, the key stays in
  \<open>modified\<close> and the field stays in the field store.
\<close>

theorem Unset_modified_key_panics:
  "(case node_Set 0 [VStr ''name'', VStr ''B''] loaded of
      (r1, s1) \<Rightarrow>
        (case node_Unset 0 [''name''] s1 of
           (r2, s2) \<Rightarrow>
             r1 = Inr 0 \<and>
             node_added (nodes s1 0) = [] \<and>
             node_modified (nodes s1 0) = [''name''] \<and>
             IndexOf (node_added (nodes s1 0)) ''name'' = - 1 \<and>
             r2 = Inl (MisuseError ''Index out of range.'') \<and>
             node_modified (nodes s2 0) = [''name''] \<and>
             node_deleted (nodes s2 0) = [] \<and>
             fields s2 0 = [(''name'', VStr ''B'')]))"
  by (simp add: loaded_eq model_defs example_session_def)

text \<open>
  C6.  \<open>Set\<close> with an odd number of arguments is rejected as a misuse, and the call
  leaves no trace: no key recorded, no registration in \<open>modified\<close> of the collection,
  nothing written.  The code keeps the recording of the keys under the test of the
  length and leaves the registration outside of it: the call on the first node of
  \<open>loaded\<close> is rejected with the keys, the field stores and the history as they were,
  but the node is in \<open>modified\<close> of the collection afterwards.  The other misuse, a key
  that is not a string, aborts before the registration.
\<close>

theorem Set_odd_registers_node:
  "fst (node_Set 0 [VStr ''name''] loaded) =
     Inl (MisuseError ''Object fields have to be set as key-value pairs.'') \<and>
   col_modified loaded = [] \<and>
   col_modified (snd (node_Set 0 [VStr ''name''] loaded)) = [NodePtr 0] \<and>
   nodes (snd (node_Set 0 [VStr ''name''] loaded)) = nodes loaded \<and>
   objects (snd (node_Set 0 [VStr ''name''] loaded)) = objects loaded \<and>
   log (snd (node_Set 0 [VStr ''name''] loaded)) = log loaded \<and>
   fst (node_Set 0 [VInt 1, VStr ''x''] loaded) =
     Inl (MisuseError ''Keys have to be strings.'') \<and>
   col_modified (snd (node_Set 0 [VInt 1, VStr ''x''] loaded)) = []"
  by (simp add: loaded_eq model_defs example_session_def)



text \<open>
  C8.  After \<open>Add(x)\<close> and a \<open>Commit\<close> with a database that succeeds, the new node has
  the identity that the database has assigned, is not in \<open>added\<close>, and has the fields of
  \<open>x\<close>.  That holds on \<open>with_object\<close>: the node gets the identity \<open>4:abc:3\<close>.  It fails
  on a collection in which \<open>Insert\<close> has left a bare object in \<open>added\<close> (the defect of
  C3): the commit panics on the bare object before it reaches the new node, no query is
  run, the node has no identity and stays in \<open>added\<close>.
\<close>

theorem Add_after_Insert_gets_no_identity:
  "(case Add [ObjPtr 2] with_object of
      (r1, s1) \<Rightarrow>
        (case Commit s1 of
           (r2, s2) \<Rightarrow>
             r1 = Inr () \<and> r2 = Inr () \<and>
             col_added s1 = [NodePtr 2] \<and>
             node_id (nodes s2 2) = ''4:abc:3'' \<and>
             col_added s2 = [] \<and>
             fields s2 2 = [(''name'', VStr ''C'')])) \<and>
   (case alloc_object [(''name'', VStr ''D'')] with_object of
      (b, s0) \<Rightarrow>
        (case Insert 0 (ObjPtr b) s0 of
           (r0, s1) \<Rightarrow>
             (case Add [ObjPtr 2] s1 of
                (r1, s2) \<Rightarrow>
                  (case Commit s2 of
                     (r2, s3) \<Rightarrow>
                       r0 = Inr () \<and> r1 = Inr () \<and>
                       objects s0 2 = [(''name'', VStr ''C'')] \<and>
                       col_added s2 = [ObjPtr b, NodePtr 2] \<and>
                       SliceList s2 = [ObjPtr b, NodePtr 0, NodePtr 1, NodePtr 2] \<and>
                       r2 = Inl (RuntimeError ''interface conversion: not *neo4go.node'') \<and>
                       node_id (nodes s3 2) = [] \<and>
                       col_added s3 = [ObjPtr b, NodePtr 2] \<and>
                       log s3 = log s0))))"
  by (simp add: with_object_def loaded_eq model_defs example_session_def)

text \<open>
  C9.  \<open>Clear\<close> of a node fails in every state, and the state after it (field stores
  and lists of keys included) is the state before it.
\<close>

theorem node_Clear_always_fails:
  "fst (node_Clear p s) = Inl (MisuseError ''Cannot clear a Neo4j node.'') \<and>
   snd (node_Clear p s) = s"
  by (simp add: node_Clear_def)

text \<open>
  C10.  \<open>Query\<close> returns a list that is not nil on every path: the empty list with the
  error when \<open>Run\<close> fails, and the rows gathered so far (with the error, if any) when the
  iteration ends.
\<close>

theorem Query_returns_list:
  "fst (Query query prm s) =
     (case session s (log s) (TrimSpace query) prm of
        RunError err \<Rightarrow> (Some [], Some err)
      | RunResult records err \<Rightarrow> (Some (map convert_record records), err)) \<and>
   fst (fst (Query query prm s)) \<noteq> None"
  by (simp add: Query_def Let_def split: run_result.splits)

end
